theory Spec2Isabelle
  imports Main
begin

section \<open>Strings, whitespace and the Python library\<close>

text \<open>
  A Python \<open>str\<close> is a sequence of Unicode code points, and every regular expression of
  the script works on code points, so a string is a list of code points here. The
  Chinese literals of the script are written by code point:
  U+5355 U+9009 (single choice), U+591A U+9009 (multiple choice), U+5224 U+65AD
  (true/false), U+7B54 U+6848 (answer), U+6B63 U+786E (correct), U+9519 U+8BEF (wrong),
  U+3001 (enumeration comma), U+FF0C, U+FF1B, U+FF1A, U+FF08, U+FF09 (full-width
  comma, semicolon, colon, parentheses), U+3000 (full-width space).
\<close>

type_synonym ustr = "nat list"

datatype error = IndexError | ValueError | TypeError | UnicodeDecodeError | OSError

text \<open>
  What the script takes from the Python library and the Unicode database, beyond ASCII:
  the upper-casing of a code point (a sequence: one code point may become several), the
  value of a decimal digit (category Nd, which \<open>\d\<close> matches and \<open>int\<close> reads), and
  whether \<open>int\<close> refuses a digit string (CPython from 3.11 raises ValueError
  beyond a configured number of digits). They are parameters: every theorem below holds
  whatever these tables are. On ASCII the tables are fixed by the definitions below.
\<close>

record pylib =
  upper_ext :: "nat \<Rightarrow> ustr"
  digit_ext :: "nat \<Rightarrow> nat option"
  int_rejects :: "ustr \<Rightarrow> bool"

text \<open>The library restricted to ASCII: no case mapping and no digit beyond ASCII, no limit in \<open>int\<close>.\<close>

definition ascii_lib :: pylib where
  "ascii_lib = \<lparr>upper_ext = (\<lambda>c. [c]), digit_ext = (\<lambda>c. None), int_rejects = (\<lambda>s. False)\<rparr>"

text \<open>\<open>str.isspace\<close>, which is also \<open>\s\<close> of \<open>re\<close> on \<open>str\<close> and what \<open>strip()\<close> removes.\<close>

definition isspace :: "nat \<Rightarrow> bool" where
  "isspace c \<longleftrightarrow>
     (9 \<le> c \<and> c \<le> 13) \<or> (28 \<le> c \<and> c \<le> 32) \<or> c = 133 \<or> c = 160 \<or> c = 5760 \<or>
     (8192 \<le> c \<and> c \<le> 8202) \<or> c = 8232 \<or> c = 8233 \<or> c = 8239 \<or> c = 8287 \<or> c = 12288"

definition lstrip :: "ustr \<Rightarrow> ustr" where
  "lstrip s = dropWhile isspace s"

definition rstrip :: "ustr \<Rightarrow> ustr" where
  "rstrip s = rev (dropWhile isspace (rev s))"

definition strip :: "ustr \<Rightarrow> ustr" where
  "strip s = rstrip (lstrip s)"

definition upper_cp :: "pylib \<Rightarrow> nat \<Rightarrow> ustr" where
  "upper_cp L c =
     (if c < 128 then (if 97 \<le> c \<and> c \<le> 122 then [c - 32] else [c]) else upper_ext L c)"

definition upper :: "pylib \<Rightarrow> ustr \<Rightarrow> ustr" where
  "upper L s = concat (map (upper_cp L) s)"

text \<open>
  The value of a decimal digit. No version of Unicode has a digit that is whitespace or
  U+3001, which the determinism of the question-start pattern relies on; the table is
  consulted outside these only.
\<close>

definition digit_val :: "pylib \<Rightarrow> nat \<Rightarrow> nat option" where
  "digit_val L c =
     (if c < 128 then (if 48 \<le> c \<and> c \<le> 57 then Some (c - 48) else None)
      else if isspace c \<or> c = 12289 then None
      else digit_ext L c)"

definition isdigit :: "pylib \<Rightarrow> nat \<Rightarrow> bool" where
  "isdigit L c \<longleftrightarrow> digit_val L c \<noteq> None"

text \<open>\<open>int(s)\<close> on a string of decimal digits.\<close>

definition py_int :: "pylib \<Rightarrow> ustr \<Rightarrow> error + int" where
  "py_int L ds =
     (if int_rejects L ds then Inl ValueError
      else Inr (int (foldl (\<lambda>a c. 10 * a + (case digit_val L c of Some d \<Rightarrow> d | None \<Rightarrow> 0)) 0 ds)))"

text \<open>\<open>re.sub(r"\s+", " ", s)\<close>: every maximal run of whitespace becomes one space.\<close>

function sub_ws :: "ustr \<Rightarrow> ustr" where
  "sub_ws [] = []"
| "sub_ws (c # cs) = (if isspace c then 32 # sub_ws (dropWhile isspace cs) else c # sub_ws cs)"
  by pat_completeness auto
termination
  by (relation "measure length") (auto simp: length_dropWhile_le less_Suc_eq_le)

definition clean :: "ustr \<Rightarrow> ustr" where
  "clean s = strip (sub_ws s)"

section \<open>The pattern matchers\<close>

text \<open>
  Each regular expression is read as the deterministic matcher that Python's
  backtracking search amounts to: a greedy \<open>\s*\<close> or \<open>\d+\<close> is followed by something
  that is neither whitespace nor a digit, so giving characters back never helps; \<open>.\<close>
  matches every code point but the newline (10); \<open>$\<close> matches at the end and before a
  newline that ends the string.
\<close>

definition T_SINGLE :: ustr where "T_SINGLE = [21333, 36873]"
definition T_MULTI :: ustr where "T_MULTI = [22810, 36873]"
definition T_JUDGE :: ustr where "T_JUDGE = [21028, 26029]"

text \<open>
  The character classes: full stop, U+3001 or closing parenthesis after a number or a
  letter; an opening parenthesis, ASCII or U+FF08; a closing one, ASCII or U+FF09; a
  colon, ASCII or U+FF1A; \<open>[A-Za-z]\<close>.
\<close>

definition is_sep :: "nat \<Rightarrow> bool" where
  "is_sep c \<longleftrightarrow> c = 46 \<or> c = 12289 \<or> c = 41"

definition is_lparen :: "nat \<Rightarrow> bool" where
  "is_lparen c \<longleftrightarrow> c = 65288 \<or> c = 40"

definition is_rparen :: "nat \<Rightarrow> bool" where
  "is_rparen c \<longleftrightarrow> c = 41 \<or> c = 65289"

definition is_colon :: "nat \<Rightarrow> bool" where
  "is_colon c \<longleftrightarrow> c = 58 \<or> c = 65306"

definition is_ascii_letter :: "nat \<Rightarrow> bool" where
  "is_ascii_letter c \<longleftrightarrow> (65 \<le> c \<and> c \<le> 90) \<or> (97 \<le> c \<and> c \<le> 122)"

text \<open>The alternation of the three type words, at the start of \<open>s\<close>: the word and the rest.\<close>

definition match_type_word :: "ustr \<Rightarrow> (ustr \<times> ustr) option" where
  "match_type_word s =
     (if take 2 s = T_SINGLE \<or> take 2 s = T_MULTI \<or> take 2 s = T_JUDGE
      then Some (take 2 s, drop 2 s) else None)"

text \<open>\<open>\s*(word)\s*[)U+FF09]\<close>, the part of both type patterns after the opening parenthesis.\<close>

definition match_type_close :: "ustr \<Rightarrow> (ustr \<times> ustr) option" where
  "match_type_close s =
     (case match_type_word (lstrip s) of
        None \<Rightarrow> None
      | Some (typ, r) \<Rightarrow>
          (case lstrip r of
             [] \<Rightarrow> None
           | c # r' \<Rightarrow> if is_rparen c then Some (typ, r') else None))"

text \<open>The optional group of the question-start pattern: the opening parenthesis may be absent.\<close>

definition match_typedesc :: "ustr \<Rightarrow> (ustr \<times> ustr) option" where
  "match_typedesc s =
     (case s of
        [] \<Rightarrow> None
      | c # r \<Rightarrow> if is_lparen c then match_type_close r else match_type_close s)"

text \<open>\<open>\s*(?P<qtext>.*)$\<close>: the rest of the line, which must not go over a newline.\<close>

definition match_qtext :: "ustr \<Rightarrow> ustr option" where
  "match_qtext s =
     (let r = lstrip s in
      if 10 \<notin> set r then Some r
      else if last r = 10 \<and> 10 \<notin> set (butlast r) then Some (butlast r)
      else None)"

text \<open>\<open>RE_Q_START.match(line)\<close>: the groups num, typedesc and qtext.\<close>

definition RE_Q_START :: "pylib \<Rightarrow> ustr \<Rightarrow> (ustr \<times> ustr option \<times> ustr) option" where
  "RE_Q_START L line =
     (let s0 = lstrip line;
          num = takeWhile (isdigit L) s0
      in if num = [] then None
         else
           (case lstrip (dropWhile (isdigit L) s0) of
              [] \<Rightarrow> None
            | c # s2 \<Rightarrow>
                if is_sep c then
                  (let s3 = lstrip s2 in
                   case match_typedesc s3 of
                     Some (typ, s4) \<Rightarrow> map_option (\<lambda>q. (num, Some typ, q)) (match_qtext s4)
                   | None \<Rightarrow> map_option (\<lambda>q. (num, None, q)) (match_qtext s3))
                else None))"

text \<open>
  \<open>RE_Q_TYPE_AT_END.match(text)\<close>: the lazy body grows one code point at a time (never
  over a newline) until the parenthesised type word, followed by whitespace only, ends
  the text. The result is the body and the type word.
\<close>

fun type_at_end :: "ustr \<Rightarrow> ustr \<Rightarrow> (ustr \<times> ustr) option" where
  "type_at_end body [] = None"
| "type_at_end body (c # cs) =
     (case (if is_lparen c then match_type_close cs else None) of
        Some (typ, r) \<Rightarrow>
          if lstrip r = [] then Some (body, typ)
          else if c = 10 then None else type_at_end (body @ [c]) cs
      | None \<Rightarrow> if c = 10 then None else type_at_end (body @ [c]) cs)"

definition extract_type_from_text :: "ustr \<Rightarrow> ustr option \<times> ustr" where
  "extract_type_from_text text =
     (case type_at_end [] text of
        Some (body, typ) \<Rightarrow> (Some typ, clean body)
      | None \<Rightarrow> (None, clean text))"

text \<open>\<open>RE_OPT.match(line)\<close>: the letter (a string of one code point) and the option text.\<close>

definition RE_OPT :: "ustr \<Rightarrow> (ustr \<times> ustr) option" where
  "RE_OPT line =
     (case lstrip line of
        [] \<Rightarrow> None
      | c # s1 \<Rightarrow>
          if is_ascii_letter c then
            (case lstrip s1 of
               [] \<Rightarrow> None
             | d # s2 \<Rightarrow>
                 if is_sep d then
                   (let t = rstrip (lstrip s2) in
                    if t = [] \<or> 10 \<in> set t then None else Some ([c], t))
                 else None)
          else None)"

text \<open>The label of an answer line: U+7B54 U+6848, or U+6B63 U+786E U+7B54 U+6848.\<close>

definition match_ans_label :: "ustr \<Rightarrow> ustr option" where
  "match_ans_label s =
     (if take 2 s = [31572, 26696] then Some (drop 2 s)
      else if take 4 s = [27491, 30830, 31572, 26696] then Some (drop 4 s)
      else None)"

text \<open>
  \<open>RE_ANS.match(line)\<close>: the answer text is the lazy \<open>(.+?)\<close>, that is the rest without
  its trailing whitespace. When nothing but whitespace follows the colon, the greedy
  \<open>\s*\<close> gives back its last code point that is not a newline, and that is the group.
\<close>

definition RE_ANS :: "ustr \<Rightarrow> ustr option" where
  "RE_ANS line =
     (case match_ans_label (lstrip line) of
        None \<Rightarrow> None
      | Some s1 \<Rightarrow>
          (case lstrip s1 of
             [] \<Rightarrow> None
           | c # s2 \<Rightarrow>
               if is_colon c then
                 (let r = lstrip s2 in
                  if r \<noteq> [] then
                    (let t = rstrip r in if 10 \<in> set t then None else Some t)
                  else
                    (case filter (\<lambda>w. w \<noteq> 10) s2 of
                       [] \<Rightarrow> None
                     | w # ws \<Rightarrow> Some [last (w # ws)]))
               else None))"

section \<open>Answer normalisation\<close>

text \<open>U+5BF9, U+6B63 U+786E, U+221A, T, TRUE, YES, Y, U+662F.\<close>

definition TRUE_SET :: "ustr set" where
  "TRUE_SET = {[23545], [27491, 30830], [8730], [84], [84, 82, 85, 69], [89, 69, 83], [89], [26159]}"

text \<open>U+9519, U+9519 U+8BEF, U+00D7, F, FALSE, NO, N, U+5426.\<close>

definition FALSE_SET :: "ustr set" where
  "FALSE_SET = {[38169], [38169, 35823], [215], [70], [70, 65, 76, 83, 69], [78, 79], [78], [21542]}"

text \<open>The separator class of \<open>re.split\<close>: U+3001, U+FF0C, comma, semicolon, U+FF1B, whitespace, plus.\<close>

definition is_split_sep :: "nat \<Rightarrow> bool" where
  "is_split_sep c \<longleftrightarrow>
     c = 12289 \<or> c = 65292 \<or> c = 44 \<or> c = 59 \<or> c = 65307 \<or> isspace c \<or> c = 43"

text \<open>
  \<open>[p for p in re.split(..., s) if p]\<close>: the maximal runs of code points that are not
  separators; \<open>tok\<close> is the run being read.
\<close>

fun split_parts :: "ustr \<Rightarrow> ustr \<Rightarrow> ustr list" where
  "split_parts tok [] = (if tok = [] then [] else [tok])"
| "split_parts tok (c # cs) =
     (if is_split_sep c then (if tok = [] then split_parts [] cs else tok # split_parts [] cs)
      else split_parts (tok @ [c]) cs)"

text \<open>The letters of the parts that start with one of \<open>A-Z\<close>.\<close>

fun letters :: "ustr list \<Rightarrow> ustr list" where
  "letters [] = []"
| "letters ([] # ps) = letters ps"
| "letters ((c # p) # ps) = (if 65 \<le> c \<and> c \<le> 90 then [c] # letters ps else letters ps)"

text \<open>The de-duplication loop, with its set \<open>seen\<close> and its list \<open>uniq\<close>.\<close>

fun uniq_loop :: "ustr set \<Rightarrow> ustr list \<Rightarrow> ustr list \<Rightarrow> ustr list" where
  "uniq_loop seen uniq [] = uniq"
| "uniq_loop seen uniq (ch # chs) =
     (if ch \<in> seen then uniq_loop seen uniq chs
      else uniq_loop (insert ch seen) (uniq @ [ch]) chs)"

definition normalize_answers :: "pylib \<Rightarrow> ustr \<Rightarrow> ustr \<Rightarrow> error + ustr list" where
  "normalize_answers L ans_text q_type =
     (let parts = split_parts [] (upper L (strip ans_text)) in
      if q_type = T_JUDGE then
        (case parts of
           [] \<Rightarrow> Inl IndexError
         | token # rest \<Rightarrow>
             if token \<in> TRUE_SET \<or> upper L token \<in> TRUE_SET then Inr [[65]]
             else if token \<in> FALSE_SET \<or> upper L token \<in> FALSE_SET then Inr [[66]]
             else if token = [65] \<or> token = [66] then Inr [token]
             else Inr [])
      else Inr (uniq_loop {} [] (letters parts)))"

section \<open>Records and their finalisation\<close>

record opt =
  opt_label :: ustr
  opt_text :: ustr

text \<open>
  The dictionary of a question, with the keys the parser gives it. The answer is always
  a list there (\<open>[]\<close> or the result of \<open>normalize_answers\<close>), so the branch of
  \<open>flush_current\<close> that wraps a string answer is never taken and has no counterpart.
  The empty dictionary \<open>{}\<close>, before the first question, is \<open>None\<close>.
\<close>

record qrec =
  number :: int
  qtype :: ustr
  question :: ustr
  options :: "opt list"
  answer :: "ustr list"

text \<open>Label A with U+6B63 U+786E (correct), label B with U+9519 U+8BEF (wrong).\<close>

definition default_options :: "opt list" where
  "default_options =
     [\<lparr>opt_label = [65], opt_text = [27491, 30830]\<rparr>, \<lparr>opt_label = [66], opt_text = [38169, 35823]\<rparr>]"

fun clean_opts :: "pylib \<Rightarrow> ustr set \<Rightarrow> opt list \<Rightarrow> opt list \<Rightarrow> opt list" where
  "clean_opts L seen cleaned [] = cleaned"
| "clean_opts L seen cleaned (x # xs) =
     (let label = upper L (opt_label x); text = clean (opt_text x) in
      if label = [] \<or> text = [] \<or> label \<in> seen then clean_opts L seen cleaned xs
      else clean_opts L (insert label seen) (cleaned @ [\<lparr>opt_label = label, opt_text = text\<rparr>]) xs)"

text \<open>The record as \<open>flush_current\<close> leaves it: default options, then cleaned options.\<close>

definition finalize :: "pylib \<Rightarrow> qrec \<Rightarrow> qrec" where
  "finalize L buf =
     (let b = (if qtype buf = T_JUDGE \<and> options buf = [] then buf\<lparr>options := default_options\<rparr> else buf)
      in b\<lparr>options := clean_opts L {} [] (options b)\<rparr>)"

definition flush_current :: "pylib \<Rightarrow> qrec list \<Rightarrow> qrec option \<Rightarrow> qrec list" where
  "flush_current L q_list buf =
     (case buf of
        None \<Rightarrow> q_list
      | Some b \<Rightarrow>
          if clean (question (finalize L b)) \<noteq> [] then q_list @ [finalize L b] else q_list)"

section \<open>The parsing loop\<close>

record pstate =
  questions :: "qrec list"
  cur :: "qrec option"
  auto_num :: int

text \<open>
  The body of the loop of \<open>parse_docx\<close> on one raw line; an exception ends the parse.
  The option, answer and plain-text branches all ask for a non-empty \<open>cur\<close>, so with
  an empty one a line that starts no question leaves the state as it is.
\<close>

definition step :: "pylib \<Rightarrow> bool \<Rightarrow> pstate \<Rightarrow> ustr \<Rightarrow> error + pstate" where
  "step L respect_word_number st raw =
     (let line = strip raw in
      case RE_Q_START L line of
        Some (num, typedesc, qtext0) \<Rightarrow>
          (let qs = flush_current L (questions st) (cur st) in
           case py_int L num of
             Inl e \<Rightarrow> Inl e
           | Inr num_in_doc \<Rightarrow>
               (let qtext = strip qtext0;
                    (typ2, qtext2) = extract_type_from_text qtext;
                    q_type = (case typedesc of Some t \<Rightarrow> t
                              | None \<Rightarrow> (case typ2 of Some t \<Rightarrow> t | None \<Rightarrow> T_SINGLE));
                    q = clean (if typ2 = None then qtext else qtext2);
                    n = (if respect_word_number then num_in_doc else auto_num st)
                in Inr \<lparr>questions = qs,
                        cur = Some \<lparr>number = n, qtype = q_type, question = q, options = [], answer = []\<rparr>,
                        auto_num = (if respect_word_number then num_in_doc + 1 else auto_num st + 1)\<rparr>))
      | None \<Rightarrow>
          (case cur st of
             None \<Rightarrow> Inr st
           | Some c \<Rightarrow>
               (case RE_OPT line of
                  Some (l, t) \<Rightarrow>
                    Inr (st\<lparr>cur := Some (c\<lparr>options := options c @ [\<lparr>opt_label = upper L l, opt_text = clean t\<rparr>]\<rparr>)\<rparr>)
                | None \<Rightarrow>
                    (case RE_ANS line of
                       Some ans_text \<Rightarrow>
                         (case normalize_answers L ans_text (qtype c) of
                            Inl e \<Rightarrow> Inl e
                          | Inr a \<Rightarrow> Inr (st\<lparr>cur := Some (c\<lparr>answer := a\<rparr>)\<rparr>))
                     | None \<Rightarrow>
                         if line = [] then Inr st
                         else
                           (let (typ2, body2) = extract_type_from_text line;
                                c1 = (case typ2 of Some t \<Rightarrow> c\<lparr>qtype := t\<rparr> | None \<Rightarrow> c);
                                line1 = (if typ2 = None then line else body2)
                            in Inr (st\<lparr>cur := Some (c1\<lparr>question := clean (strip (question c @ [32] @ line1))\<rparr>)\<rparr>))))))"

fun run :: "pylib \<Rightarrow> bool \<Rightarrow> pstate \<Rightarrow> ustr list \<Rightarrow> error + pstate" where
  "run L r st [] = Inr st"
| "run L r st (raw # raws) =
     (case step L r st raw of Inl e \<Rightarrow> Inl e | Inr st' \<Rightarrow> run L r st' raws)"

text \<open>The lines of the document from the texts of its paragraphs: U+3000 becomes a space.\<close>

definition read_lines :: "ustr list \<Rightarrow> ustr list" where
  "read_lines paragraphs = map (\<lambda>p. strip (map (\<lambda>c. if c = 12288 then 32 else c) p)) paragraphs"

definition init_state :: "int \<Rightarrow> pstate" where
  "init_state start_number = \<lparr>questions = [], cur = None, auto_num = start_number\<rparr>"

text \<open>
  \<open>parse_docx\<close> from the paragraph texts that \<open>Document(...)\<close> provides: the loop over
  the lines and one empty line, then the last flush.
\<close>

definition parse_docx :: "pylib \<Rightarrow> ustr list \<Rightarrow> int \<Rightarrow> bool \<Rightarrow> error + qrec list" where
  "parse_docx L paragraphs start_number respect_word_number =
     (case run L respect_word_number (init_state start_number) (read_lines paragraphs @ [[]]) of
        Inl e \<Rightarrow> Inl e
      | Inr st \<Rightarrow> Inr (flush_current L (questions st) (cur st)))"

section \<open>Merging into an existing output file\<close>

text \<open>
  What \<open>json.loads\<close> returns, and what the items of the merged list are. The records of
  the parser are dictionaries; a dictionary keeps its keys in insertion order.
\<close>

datatype json =
    JNull
  | JBool bool
  | JInt int
  | JFloat ustr
  | JStr ustr
  | JArr "json list"
  | JObj "(ustr \<times> json) list"

text \<open>The keys of a record: options, answer, type, question, number (in ASCII).\<close>

definition K_OPTIONS :: ustr where "K_OPTIONS = [111, 112, 116, 105, 111, 110, 115]"
definition K_ANSWER :: ustr where "K_ANSWER = [97, 110, 115, 119, 101, 114]"
definition K_TYPE :: ustr where "K_TYPE = [116, 121, 112, 101]"
definition K_QUESTION :: ustr where "K_QUESTION = [113, 117, 101, 115, 116, 105, 111, 110]"
definition K_NUMBER :: ustr where "K_NUMBER = [110, 117, 109, 98, 101, 114]"
definition K_LABEL :: ustr where "K_LABEL = [108, 97, 98, 101, 108]"
definition K_TEXT :: ustr where "K_TEXT = [116, 101, 120, 116]"

text \<open>A record of the parser as the dictionary it is, keys in the order the parser sets them.\<close>

definition opt_dict :: "opt \<Rightarrow> json" where
  "opt_dict x = JObj [(K_LABEL, JStr (opt_label x)), (K_TEXT, JStr (opt_text x))]"

definition qrec_dict :: "qrec \<Rightarrow> json" where
  "qrec_dict q =
     JObj [(K_OPTIONS, JArr (map opt_dict (options q))),
           (K_ANSWER, JArr (map JStr (answer q))),
           (K_TYPE, JStr (qtype q)),
           (K_QUESTION, JStr (question q)),
           (K_NUMBER, JInt (number q))]"

text \<open>\<open>d[k] = v\<close> and \<open>d.get(k)\<close> on a dictionary.\<close>

fun dict_set :: "(ustr \<times> json) list \<Rightarrow> ustr \<Rightarrow> json \<Rightarrow> (ustr \<times> json) list" where
  "dict_set [] k v = [(k, v)]"
| "dict_set ((k', v') # kvs) k v = (if k' = k then (k, v) # kvs else (k', v') # dict_set kvs k v)"

fun dict_get :: "json \<Rightarrow> ustr \<Rightarrow> json option" where
  "dict_get (JObj kvs) k = map_of kvs k"
| "dict_get other k = None"

text \<open>\<open>item["number"] = n\<close>: only a dictionary takes it, every other value raises TypeError.\<close>

fun set_number :: "int \<Rightarrow> json \<Rightarrow> error + json" where
  "set_number n (JObj kvs) = Inr (JObj (dict_set kvs K_NUMBER (JInt n)))"
| "set_number n other = Inl TypeError"

text \<open>
  The renumbering loop. The items are distinct objects (\<open>json.loads\<close> and the parser
  build each one anew), so assigning in place is assigning in the list.
\<close>

fun renumber :: "int \<Rightarrow> json list \<Rightarrow> error + json list" where
  "renumber n [] = Inr []"
| "renumber n (item # items) =
     (case set_number n item of
        Inl e \<Rightarrow> Inl e
      | Inr item' \<Rightarrow>
          (case renumber (n + 1) items of
             Inl e \<Rightarrow> Inl e
           | Inr items' \<Rightarrow> Inr (item' # items')))"

text \<open>\<open>list(v)\<close>: a list as it is, the keys of a dictionary, the characters of a string.\<close>

fun py_list :: "json \<Rightarrow> error + json list" where
  "py_list (JArr xs) = Inr xs"
| "py_list (JObj kvs) = Inr (map (\<lambda>kv. JStr (fst kv)) kvs)"
| "py_list (JStr s) = Inr (map (\<lambda>c. JStr [c]) s)"
| "py_list other = Inl TypeError"

text \<open>The literal \<open>window.questionsData\<close>.\<close>

definition WQD :: ustr where
  "WQD = [119, 105, 110, 100, 111, 119, 46, 113, 117, 101, 115, 116, 105, 111, 110, 115,
          68, 97, 116, 97]"

text \<open>
  After the opening bracket: the lazy \<open>[\s\S]*?\<close> stops at the first closing bracket
  (93) that whitespace and a semicolon (59) follow; \<open>acc\<close> is the group so far.
\<close>

fun match_payload :: "ustr \<Rightarrow> ustr \<Rightarrow> ustr option" where
  "match_payload acc [] = None"
| "match_payload acc (c # cs) =
     (if c = 93 \<and> (case lstrip cs of [] \<Rightarrow> False | d # r \<Rightarrow> d = 59) then Some (acc @ [c])
      else match_payload (acc @ [c]) cs)"

text \<open>The pattern at the start of \<open>s\<close>: the literal, an equals sign (61), a bracket (91).\<close>

definition match_wqd :: "ustr \<Rightarrow> ustr option" where
  "match_wqd s =
     (if take 20 s = WQD then
        (case lstrip (drop 20 s) of
           [] \<Rightarrow> None
         | c # s1 \<Rightarrow>
             if c = 61 then
               (case lstrip s1 of
                  [] \<Rightarrow> None
                | d # s2 \<Rightarrow> if d = 91 then match_payload [91] s2 else None)
             else None)
      else None)"

text \<open>\<open>re.search\<close>: the match at the leftmost position that has one; its group 1.\<close>

fun search_wqd :: "ustr \<Rightarrow> ustr option" where
  "search_wqd [] = None"
| "search_wqd (c # cs) =
     (case match_wqd (c # cs) of Some p \<Rightarrow> Some p | None \<Rightarrow> search_wqd cs)"

text \<open>
  What is at \<open>js_path\<close>: nothing (\<open>exists()\<close> is false); something that \<open>read_text\<close>
  cannot read as UTF-8 text, with the exception it raises (UnicodeDecodeError for bytes
  that are not UTF-8, OSError for a directory or a file without permission); or a file
  with its decoded text.
\<close>

datatype js_file = NoFile | ReadError error | FileText ustr

text \<open>
  \<open>merge_existing\<close>; \<open>loads\<close> is \<open>json.loads\<close>, with \<open>None\<close> for an exception. The
  call of \<open>read_text\<close> is outside every \<open>try\<close>, so its exception ends the merge.
\<close>

definition merge_existing ::
    "(ustr \<Rightarrow> json option) \<Rightarrow> js_file \<Rightarrow> json list \<Rightarrow> bool \<Rightarrow> int \<Rightarrow> error + json list" where
  "merge_existing loads js_path new_list renumber_after_merge start_number =
     (case js_path of
        NoFile \<Rightarrow> Inr new_list
      | ReadError e \<Rightarrow> Inl e
      | FileText content \<Rightarrow>
          (case search_wqd content of
             None \<Rightarrow> Inr new_list
           | Some payload \<Rightarrow>
               (case py_list (case loads payload of None \<Rightarrow> JArr [] | Some v \<Rightarrow> v) of
                  Inl e \<Rightarrow> Inl e
                | Inr old_list \<Rightarrow>
                    (let merged = old_list @ new_list in
                     if renumber_after_merge then renumber start_number merged
                     else Inr merged))))"

section \<open>Writing the output file\<close>

text \<open>
  \<open>json.dumps(q_list, ensure_ascii=False, indent=2)\<close>. A string is written between
  double quotes with the backslash, the double quote and the code points below 32
  escaped, everything else as it is. An empty list is \<open>[]\<close> and an empty dictionary
  \<open>{}\<close>; otherwise every item is on a line of its own, two spaces deeper than the
  bracket, with a comma after every item but the last, and a key is followed by a colon
  and a space. A float is kept as the text of its literal.
\<close>

function dec_digits :: "nat \<Rightarrow> ustr" where
  "dec_digits n = (if n < 10 then [48 + n] else dec_digits (n div 10) @ [48 + n mod 10])"
  by pat_completeness auto
termination
  by (relation "measure id") auto

declare dec_digits.simps [simp del]

definition int_repr :: "int \<Rightarrow> ustr" where
  "int_repr i = (if i < 0 then 45 # dec_digits (nat (- i)) else dec_digits (nat i))"

definition hex_digit :: "nat \<Rightarrow> nat" where
  "hex_digit d = (if d < 10 then 48 + d else 87 + d)"

definition escape_cp :: "nat \<Rightarrow> ustr" where
  "escape_cp c =
     (if c = 92 then [92, 92]
      else if c = 34 then [92, 34]
      else if c = 8 then [92, 98]
      else if c = 12 then [92, 102]
      else if c = 10 then [92, 110]
      else if c = 13 then [92, 114]
      else if c = 9 then [92, 116]
      else if c < 32 then [92, 117, 48, 48, hex_digit (c div 16), hex_digit (c mod 16)]
      else [c])"

definition encode_str :: "ustr \<Rightarrow> ustr" where
  "encode_str s = 34 # concat (map escape_cp s) @ [34]"

text \<open>A newline and the indentation of a level; the items with a comma and a new line between.\<close>

fun newline_indent :: "nat \<Rightarrow> ustr" where
  "newline_indent 0 = [10]"
| "newline_indent (Suc lvl) = newline_indent lvl @ [32, 32]"

fun join_items :: "ustr \<Rightarrow> ustr list \<Rightarrow> ustr" where
  "join_items sep [] = []"
| "join_items sep [x] = x"
| "join_items sep (x # y # ys) = x @ sep @ join_items sep (y # ys)"

fun dumps :: "nat \<Rightarrow> json \<Rightarrow> ustr" where
  "dumps lvl JNull = [110, 117, 108, 108]"
| "dumps lvl (JBool b) = (if b then [116, 114, 117, 101] else [102, 97, 108, 115, 101])"
| "dumps lvl (JInt i) = int_repr i"
| "dumps lvl (JFloat literal) = literal"
| "dumps lvl (JStr s) = encode_str s"
| "dumps lvl (JArr xs) =
     (if xs = [] then [91, 93]
      else [91] @ newline_indent (Suc lvl) @
           join_items (44 # newline_indent (Suc lvl)) (map (dumps (Suc lvl)) xs) @
           newline_indent lvl @ [93])"
| "dumps lvl (JObj kvs) =
     (if kvs = [] then [123, 125]
      else [123] @ newline_indent (Suc lvl) @
           join_items (44 # newline_indent (Suc lvl))
             (map (\<lambda>kv. encode_str (fst kv) @ [58, 32] @ dumps (Suc lvl) (snd kv)) kvs) @
           newline_indent lvl @ [125])"

text \<open>The text that \<open>write_js\<close> writes: the assignment, the list, a semicolon and a newline.\<close>

definition write_js :: "json list \<Rightarrow> ustr" where
  "write_js q_list = WQD @ [32, 61, 32] @ dumps 0 (JArr q_list) @ [59, 10]"

text \<open>A record, as the merge sees one: a dictionary.\<close>

fun is_dict :: "json \<Rightarrow> bool" where
  "is_dict (JObj kvs) = True"
| "is_dict other = False"

section \<open>Example data\<close>

text \<open>Two parsed records, both numbered 1, with the questions \<open>x\<close> and \<open>y\<close>.\<close>

definition rec_x :: qrec where
  "rec_x = \<lparr>number = 1, qtype = T_SINGLE, question = [120], options = [], answer = [[65]]\<rparr>"

definition rec_y :: qrec where
  "rec_y = \<lparr>number = 1, qtype = T_SINGLE, question = [121], options = [], answer = []\<rparr>"

text \<open>
  Three files: \<open>window.questionsData=[];\<close>, \<open>window.questionsData=[{];\<close> (the payload is
  not JSON) and \<open>window.questionsData = [{}];\<close>; and what \<open>json.loads\<close> makes of the two
  payloads that are JSON.
\<close>

definition file_empty :: ustr where
  "file_empty = WQD @ [61, 91, 93, 59]"

definition file_bad_payload :: ustr where
  "file_bad_payload = WQD @ [61, 91, 123, 93, 59]"

definition file_one :: ustr where
  "file_one = WQD @ [32, 61, 32, 91, 123, 125, 93, 59, 10]"

definition loads_ex :: "ustr \<Rightarrow> json option" where
  "loads_ex = [[91, 93] \<mapsto> JArr [], [91, 123, 125, 93] \<mapsto> JArr [JObj []]]"

section \<open>The specification's reading of two loops\<close>

text \<open>
  The finalisation of the options in the words of the specification: every option gets
  its label in upper case and its text cleaned, those with an empty label or an empty
  text are dropped, and of several options with one label the first is kept, in the
  order of first appearance.
\<close>

definition normalized :: "pylib \<Rightarrow> opt \<Rightarrow> opt" where
  "normalized L x = \<lparr>opt_label = upper L (opt_label x), opt_text = clean (opt_text x)\<rparr>"

definition kept_options :: "pylib \<Rightarrow> opt list \<Rightarrow> opt list" where
  "kept_options L xs =
     filter (\<lambda>y. opt_label y \<noteq> [] \<and> opt_text y \<noteq> []) (map (normalized L) xs)"

function first_by_label :: "opt list \<Rightarrow> opt list" where
  "first_by_label [] = []"
| "first_by_label (x # xs) = x # first_by_label (filter (\<lambda>y. opt_label y \<noteq> opt_label x) xs)"
  by pat_completeness auto
termination
  by (relation "measure length") (auto simp: less_Suc_eq_le)

text \<open>
  The letter extraction in the words of the specification: of every part that starts with
  an upper-case letter \<open>A-Z\<close>, that letter; the other parts are ignored.
\<close>

definition leading_letters :: "ustr list \<Rightarrow> ustr list" where
  "leading_letters parts =
     map (\<lambda>p. [hd p]) (filter (\<lambda>p. p \<noteq> [] \<and> 65 \<le> hd p \<and> hd p \<le> 90) parts)"

text \<open>How many of the raw lines start a question.\<close>

definition q_starts :: "pylib \<Rightarrow> ustr list \<Rightarrow> nat" where
  "q_starts L ls = length (filter (\<lambda>l. RE_Q_START L (strip l) \<noteq> None) ls)"

section \<open>Example documents\<close>

text \<open>
  Paragraph texts, in the order of the definitions:
  \<open>1.(T)x\<close> and \<open>A:,\<close>, where \<open>T\<close> is the true/false word U+5224 U+65AD, \<open>A\<close> the
  answer label U+7B54 U+6848 and the colon is U+FF1A;
  \<open>1. a\<close>, \<open>2. b\<close>, \<open>3. c\<close>;
  \<open>1. x\<close>, \<open>B. f\<close>, \<open>b. g\<close>, \<open>A. h\<close>;
  \<open>2,s(T)\<close> with U+3001 for the comma, and \<open>A:\<close> followed by U+5BF9 (right);
  \<open>1. x\<close>, \<open>A:A\<close>, \<open>A:B\<close>;
  \<open>1. x\<close>, \<open>A. f\<close>, \<open>B. g\<close>, \<open>A:Z\<close>;
  \<open>1.\<close>, \<open>2. b\<close>.
\<close>

definition doc_judge_comma :: "ustr list" where
  "doc_judge_comma = [[49, 46, 40, 21028, 26029, 41, 120], [31572, 26696, 65306, 44]]"

definition doc_three :: "ustr list" where
  "doc_three = [[49, 46, 32, 97], [50, 46, 32, 98], [51, 46, 32, 99]]"

definition doc_bba :: "ustr list" where
  "doc_bba = [[49, 46, 32, 120], [66, 46, 32, 102], [98, 46, 32, 103], [65, 46, 32, 104]]"

definition doc_judge :: "ustr list" where
  "doc_judge = [[50, 12289, 115, 40, 21028, 26029, 41], [31572, 26696, 65306, 23545]]"

definition doc_two_answers :: "ustr list" where
  "doc_two_answers = [[49, 46, 32, 120], [31572, 26696, 65306, 65], [31572, 26696, 65306, 66]]"

definition doc_answer_z :: "ustr list" where
  "doc_answer_z =
     [[49, 46, 32, 120], [65, 46, 32, 102], [66, 46, 32, 103], [31572, 26696, 65306, 90]]"

definition doc_empty_question :: "ustr list" where
  "doc_empty_question = [[49, 46], [50, 46, 32, 98]]"

text \<open>
  \<open>1. x(T)\<close>, then the answer line with U+5BF9 (right), then \<open>y(S)\<close>, where \<open>S\<close> is the
  single-choice word U+5355 U+9009: the type changes after the answer.
\<close>

definition doc_type_change :: "ustr list" where
  "doc_type_change =
     [[49, 46, 32, 120, 40, 21028, 26029, 41], [31572, 26696, 65306, 23545],
      [121, 40, 21333, 36873, 41]]"

text \<open>The answer text \<open>ac,1b,Cd a\<close>, with U+3001 and U+FF0C for the commas; its answer line.\<close>

definition ans_mixed :: ustr where
  "ans_mixed = [97, 99, 12289, 49, 98, 65292, 67, 100, 32, 97]"

definition line_mixed :: ustr where
  "line_mixed = [31572, 26696, 65306] @ ans_mixed"

text \<open>
  A record whose question is \<open>];\<close>, as the paragraph \<open>1. ];\<close> gives it; the group that
  the pattern of \<open>merge_existing\<close> takes from the file written for it, which ends inside
  the question; and \<open>json.loads\<close> where it accepts the list as \<open>write_js\<close> wrote it and
  rejects the rest.
\<close>

definition rec_semi :: qrec where
  "rec_semi = \<lparr>number = 1, qtype = T_SINGLE, question = [93, 59], options = [], answer = []\<rparr>"

definition payload_semi :: ustr where
  "payload_semi =
     [91, 10, 32, 32, 123, 10, 32, 32, 32, 32, 34, 111, 112, 116, 105, 111, 110, 115, 34,
      58, 32, 91, 93, 44, 10, 32, 32, 32, 32, 34, 97, 110, 115, 119, 101, 114, 34, 58, 32,
      91, 93, 44, 10, 32, 32, 32, 32, 34, 116, 121, 112, 101, 34, 58, 32, 34, 21333, 36873,
      34, 44, 10, 32, 32, 32, 32, 34, 113, 117, 101, 115, 116, 105, 111, 110, 34, 58, 32,
      34, 93]"

definition loads_semi :: "ustr \<Rightarrow> json option" where
  "loads_semi = [dumps 0 (JArr [qrec_dict rec_semi]) \<mapsto> JArr [qrec_dict rec_semi]]"

text \<open>
  Records in progress: the state with \<open>rec_x\<close> open; a true/false record without
  options; a record whose question is one space; a record with the options B, B, A.
\<close>

definition open_x :: pstate where
  "open_x = \<lparr>questions = [], cur = Some rec_x, auto_num = 2\<rparr>"

definition rec_judge :: qrec where
  "rec_judge = \<lparr>number = 2, qtype = T_JUDGE, question = [115], options = [], answer = [[65]]\<rparr>"

definition rec_blank :: qrec where
  "rec_blank = \<lparr>number = 1, qtype = T_SINGLE, question = [32], options = [], answer = []\<rparr>"

definition rec_bba :: qrec where
  "rec_bba = \<lparr>number = 1, qtype = T_SINGLE, question = [120],
      options = [\<lparr>opt_label = [66], opt_text = [102]\<rparr>, \<lparr>opt_label = [66], opt_text = [103]\<rparr>,
                 \<lparr>opt_label = [65], opt_text = [104]\<rparr>],
      answer = []\<rparr>"

section \<open>Unfolding rules for evaluation\<close>

lemmas str_defs = strip_def lstrip_def rstrip_def isspace_def upper_def upper_cp_def clean_def

lemmas re_defs = RE_Q_START_def RE_OPT_def RE_ANS_def match_ans_label_def match_qtext_def
  match_typedesc_def match_type_close_def match_type_word_def extract_type_from_text_def
  is_sep_def is_lparen_def is_rparen_def is_colon_def is_ascii_letter_def isdigit_def
  digit_val_def py_int_def T_SINGLE_def T_MULTI_def T_JUDGE_def

lemmas parse_defs = parse_docx_def read_lines_def init_state_def step_def flush_current_def
  finalize_def default_options_def normalize_answers_def is_split_sep_def TRUE_SET_def
  FALSE_SET_def ascii_lib_def

lemmas ex_defs = doc_judge_comma_def doc_three_def doc_bba_def doc_judge_def
  doc_two_answers_def doc_answer_z_def doc_empty_question_def rec_x_def open_x_def
  rec_judge_def rec_blank_def rec_bba_def doc_type_change_def ans_mixed_def line_mixed_def

lemmas dump_defs = write_js_def encode_str_def escape_cp_def hex_digit_def int_repr_def
  dec_digits.simps rec_semi_def payload_semi_def loads_semi_def

lemmas merge_defs = merge_existing_def match_wqd_def WQD_def qrec_dict_def opt_dict_def
  K_NUMBER_def K_OPTIONS_def K_ANSWER_def K_TYPE_def K_QUESTION_def K_LABEL_def K_TEXT_def
  file_empty_def file_bad_payload_def file_one_def loads_ex_def rec_x_def rec_y_def

section \<open>Merging: properties\<close>

lemma map_of_dict_set_same: "map_of (dict_set kvs k v) k = Some v"
  by (induction kvs) auto

lemma map_of_dict_set_other: "k' \<noteq> k \<Longrightarrow> map_of (dict_set kvs k v) k' = map_of kvs k'"
  by (induction kvs) auto

lemma set_number_dict:
  "is_dict x \<Longrightarrow> \<exists>y. set_number n x = Inr y \<and> is_dict y \<and> dict_get y K_NUMBER = Some (JInt n) \<and>
     (\<forall>k. k \<noteq> K_NUMBER \<longrightarrow> dict_get y k = dict_get x k)"
  by (cases x) (simp_all add: map_of_dict_set_same map_of_dict_set_other)

text \<open>Renumbering a list of dictionaries succeeds, and changes the numbers only.\<close>

lemma renumber_dicts:
  "\<forall>x \<in> set xs. is_dict x \<Longrightarrow>
     \<exists>ys. renumber n xs = Inr ys \<and> length ys = length xs \<and>
       (\<forall>i < length xs. dict_get (ys ! i) K_NUMBER = Some (JInt (n + int i)) \<and>
          (\<forall>k. k \<noteq> K_NUMBER \<longrightarrow> dict_get (ys ! i) k = dict_get (xs ! i) k))"
proof (induction xs arbitrary: n)
  case Nil
  then show ?case by simp
next
  case (Cons x xs)
  from Cons.prems have dx: "is_dict x" and dxs: "\<forall>x \<in> set xs. is_dict x" by simp_all
  from set_number_dict [OF dx, of n] obtain y where
    y: "set_number n x = Inr y" "dict_get y K_NUMBER = Some (JInt n)"
       "\<forall>k. k \<noteq> K_NUMBER \<longrightarrow> dict_get y k = dict_get x k" by blast
  from Cons.IH [OF dxs, of "n + 1"] obtain ys where
    ys: "renumber (n + 1) xs = Inr ys" "length ys = length xs"
        "\<forall>i < length xs. dict_get (ys ! i) K_NUMBER = Some (JInt (n + 1 + int i)) \<and>
          (\<forall>k. k \<noteq> K_NUMBER \<longrightarrow> dict_get (ys ! i) k = dict_get (xs ! i) k)" by blast
  have "renumber n (x # xs) = Inr (y # ys)" using y(1) ys(1) by simp
  moreover have "length (y # ys) = length (x # xs)" using ys(2) by simp
  moreover have "\<forall>i < length (x # xs). dict_get ((y # ys) ! i) K_NUMBER = Some (JInt (n + int i)) \<and>
          (\<forall>k. k \<noteq> K_NUMBER \<longrightarrow> dict_get ((y # ys) ! i) k = dict_get ((x # xs) ! i) k)"
  proof (intro allI impI)
    fix i assume i: "i < length (x # xs)"
    show "dict_get ((y # ys) ! i) K_NUMBER = Some (JInt (n + int i)) \<and>
          (\<forall>k. k \<noteq> K_NUMBER \<longrightarrow> dict_get ((y # ys) ! i) k = dict_get ((x # xs) ! i) k)"
    proof (cases i)
      case 0
      then show ?thesis using y by simp
    next
      case (Suc j)
      with i have "j < length xs" by simp
      with ys(3) Suc show ?thesis by (simp add: algebra_simps)
    qed
  qed
  ultimately show ?case by blast
qed

lemma search_file_empty: "search_wqd file_empty = Some [91, 93]"
  by (simp add: match_wqd_def WQD_def file_empty_def str_defs)

lemma search_file_bad_payload: "search_wqd file_bad_payload = Some [91, 123, 93]"
  by (simp add: match_wqd_def WQD_def file_bad_payload_def str_defs)

lemma search_file_one: "search_wqd file_one = Some [91, 123, 125, 93]"
  by (simp add: match_wqd_def WQD_def file_one_def str_defs)

text \<open>
  Claim C9. When the file to append to does not exist, \<open>merge_existing\<close> returns the new
  list as it is, whatever the renumbering flag and the start value: nothing is renumbered.
\<close>

theorem merge_existing_missing_file:
  "merge_existing loads NoFile new_list renumber_after_merge start_number = Inr new_list"
  by (simp add: merge_existing_def)

text \<open>
  When the payload that the pattern takes from the file decodes to \<open>old_list\<close>, merging
  without renumbering returns \<open>old_list @ new_list\<close>, every item untouched. With
  renumbering from \<open>s\<close>, and every item a dictionary, it returns a list of the same
  length whose item \<open>i\<close> has the number \<open>s + i\<close> and, under every other key, what item
  \<open>i\<close> of \<open>old_list @ new_list\<close> has.
\<close>

lemma merge_existing_decoded:
  assumes "search_wqd content = Some payload" and "loads payload = Some (JArr old_list)"
  shows "merge_existing loads (FileText content) new_list False s = Inr (old_list @ new_list) \<and>
         ((\<forall>x \<in> set (old_list @ new_list). is_dict x) \<longrightarrow>
            (\<exists>merged. merge_existing loads (FileText content) new_list True s = Inr merged \<and>
               length merged = length (old_list @ new_list) \<and>
               (\<forall>i < length merged. dict_get (merged ! i) K_NUMBER = Some (JInt (s + int i)) \<and>
                  (\<forall>k. k \<noteq> K_NUMBER \<longrightarrow>
                     dict_get (merged ! i) k = dict_get ((old_list @ new_list) ! i) k))))"
proof (intro conjI impI)
  show "merge_existing loads (FileText content) new_list False s = Inr (old_list @ new_list)"
    using assms by (simp add: merge_existing_def)
next
  assume d: "\<forall>x \<in> set (old_list @ new_list). is_dict x"
  have m: "merge_existing loads (FileText content) new_list True s = renumber s (old_list @ new_list)"
    using assms by (simp add: merge_existing_def)
  from renumber_dicts [OF d, of s]
  show "\<exists>merged. merge_existing loads (FileText content) new_list True s = Inr merged \<and>
               length merged = length (old_list @ new_list) \<and>
               (\<forall>i < length merged. dict_get (merged ! i) K_NUMBER = Some (JInt (s + int i)) \<and>
                  (\<forall>k. k \<noteq> K_NUMBER \<longrightarrow>
                     dict_get (merged ! i) k = dict_get ((old_list @ new_list) ! i) k))"
    unfolding m by metis
qed

text \<open>A file that cannot be read as text ends the merge with the exception of the read.\<close>

lemma merge_existing_read_error:
  "merge_existing loads (ReadError e) new_list renumber_after_merge start_number = Inl e"
  by (simp add: merge_existing_def)

text \<open>A file written for a record without \<open>];\<close> in its strings gives its list back whole.\<close>

lemma search_written_rec_x:
  "search_wqd (write_js [qrec_dict rec_x]) = Some (dumps 0 (JArr [qrec_dict rec_x]))"
  by (simp add: dump_defs merge_defs T_SINGLE_def str_defs)

text \<open>
  Claim C4 does not hold of the code. The pattern of \<open>merge_existing\<close> is lazy: its group
  ends at the first closing bracket that a semicolon follows, also inside a string. The
  paragraph \<open>1. ];\<close> parses to \<open>rec_semi\<close>; in the file that \<open>write_js\<close> writes for it the
  group ends inside the question and is not the list that was written; \<open>json.loads\<close>
  rejects it, and merging the list \<open>[rec_y]\<close> into this file without renumbering returns
  \<open>[rec_y]\<close> alone, not \<open>[rec_semi, rec_y]\<close>.
\<close>

theorem merge_existing_drops_written_records:
  "parse_docx ascii_lib [[49, 46, 32, 93, 59]] 1 False = Inr [rec_semi] \<and>
   search_wqd (write_js [qrec_dict rec_semi]) = Some payload_semi \<and>
   payload_semi \<noteq> dumps 0 (JArr [qrec_dict rec_semi]) \<and>
   loads_semi (dumps 0 (JArr [qrec_dict rec_semi])) = Some (JArr [qrec_dict rec_semi]) \<and>
   loads_semi payload_semi = None \<and>
   merge_existing loads_semi (FileText (write_js [qrec_dict rec_semi])) [qrec_dict rec_y] False 1
     = Inr [qrec_dict rec_y] \<and>
   [qrec_dict rec_y] \<noteq> [qrec_dict rec_semi] @ [qrec_dict rec_y]"
proof (intro conjI)
  show "parse_docx ascii_lib [[49, 46, 32, 93, 59]] 1 False = Inr [rec_semi]"
    by (simp add: str_defs re_defs parse_defs rec_semi_def Let_def)
  show s: "search_wqd (write_js [qrec_dict rec_semi]) = Some payload_semi"
    by (simp add: dump_defs merge_defs T_SINGLE_def str_defs)
  show d: "payload_semi \<noteq> dumps 0 (JArr [qrec_dict rec_semi])"
    by (simp add: dump_defs merge_defs T_SINGLE_def)
  show "loads_semi (dumps 0 (JArr [qrec_dict rec_semi])) = Some (JArr [qrec_dict rec_semi])"
    by (simp add: loads_semi_def)
  show l: "loads_semi payload_semi = None"
    using d by (simp add: loads_semi_def)
  show "merge_existing loads_semi (FileText (write_js [qrec_dict rec_semi])) [qrec_dict rec_y] False 1
     = Inr [qrec_dict rec_y]"
    by (simp add: merge_existing_def s l)
  show "[qrec_dict rec_y] \<noteq> [qrec_dict rec_semi] @ [qrec_dict rec_y]"
    by simp
qed




section \<open>Answer normalisation: properties\<close>

lemma remdups_snoc: "remdups (zs @ [x]) = filter (\<lambda>y. y \<noteq> x) (remdups zs) @ [x]"
  by (induction zs) auto

text \<open>The loop keeps the first occurrence of every letter, in the order of appearance.\<close>

lemma uniq_loop_firsts:
  "uniq_loop seen uniq chs = uniq @ rev (remdups (rev (filter (\<lambda>c. c \<notin> seen) chs)))"
proof (induction chs arbitrary: seen uniq)
  case Nil
  then show ?case by simp
next
  case (Cons c chs)
  show ?case
    using Cons.IH
    by (simp add: remdups_snoc remdups_filter [symmetric] rev_filter [symmetric] conj_ac)
qed

lemma normalize_answers_choice:
  "q_type \<noteq> T_JUDGE \<Longrightarrow>
     normalize_answers L t q_type =
       Inr (rev (remdups (rev (letters (split_parts [] (upper L (strip t)))))))"
  by (simp add: normalize_answers_def Let_def uniq_loop_firsts)

lemma letters_leading: "letters parts = leading_letters parts"
  by (induction parts rule: letters.induct) (simp_all add: leading_letters_def)

text \<open>For a true/false question the only exception is the one of \<open>parts[0]\<close> on no part.\<close>

lemma normalize_answers_judge_error:
  "normalize_answers L t T_JUDGE = Inl IndexError \<longleftrightarrow> split_parts [] (upper L (strip t)) = []"
  by (simp add: normalize_answers_def Let_def split: list.splits)

text \<open>
  Claim C1 does not hold of the code: under a true/false question an answer text made
  of separators only leaves no part, and \<open>parts[0]\<close> raises IndexError. The answer text
  \<open>,\<close> does so whatever the library tables are, the answer pattern captures it from
  the line U+7B54 U+6848 U+FF1A \<open>,\<close>, and the parse of \<open>doc_judge_comma\<close> ends with
  the exception.
\<close>

theorem normalize_answers_judge_raises:
  "normalize_answers L [44] T_JUDGE = Inl IndexError \<and>
   RE_ANS [31572, 26696, 65306, 44] = Some [44] \<and>
   parse_docx ascii_lib doc_judge_comma 1 False = Inl IndexError"
proof (intro conjI)
  show "normalize_answers L [44] T_JUDGE = Inl IndexError"
    by (simp add: normalize_answers_def str_defs is_split_sep_def)
  show "RE_ANS [31572, 26696, 65306, 44] = Some [44]"
    by (simp add: re_defs str_defs)
  show "parse_docx ascii_lib doc_judge_comma 1 False = Inl IndexError"
    by (simp add: str_defs re_defs parse_defs ex_defs Let_def)
qed

section \<open>Finalisation: properties\<close>

lemma clean_Nil: "clean [] = []"
  by (simp add: clean_def strip_def lstrip_def rstrip_def)

lemma upper_ascii_capital: "65 \<le> c \<Longrightarrow> c \<le> 90 \<Longrightarrow> upper L [c] = [c]"
  by (simp add: upper_def upper_cp_def)

lemma clean_opts_refines:
  "clean_opts L seen cleaned xs =
     cleaned @ first_by_label (filter (\<lambda>y. opt_label y \<notin> seen) (kept_options L xs))"
proof (induction xs arbitrary: seen cleaned)
  case Nil
  then show ?case by (simp add: kept_options_def)
next
  case (Cons x xs)
  show ?case
    using Cons.IH
    by (simp add: kept_options_def normalized_def Let_def conj_ac)
qed

lemma first_by_label_labels:
  "set (map opt_label (first_by_label xs)) = set (map opt_label xs)"
proof (induction xs rule: first_by_label.induct)
  case 1
  then show ?case by simp
next
  case (2 x xs)
  then show ?case by auto
qed

lemma first_by_label_distinct: "distinct (map opt_label (first_by_label xs))"
proof (induction xs rule: first_by_label.induct)
  case 1
  then show ?case by simp
next
  case (2 x xs)
  have "opt_label x \<notin> set (map opt_label (filter (\<lambda>y. opt_label y \<noteq> opt_label x) xs))"
    by auto
  with 2 show ?case by (simp add: first_by_label_labels del: set_map)
qed

text \<open>Finalisation touches the options only.\<close>

lemma finalize_fields:
  "answer (finalize L b) = answer b" "question (finalize L b) = question b"
  "number (finalize L b) = number b" "qtype (finalize L b) = qtype b"
  by (simp_all add: finalize_def Let_def)

lemma finalize_options:
  "options (finalize L b) =
     first_by_label (kept_options L
       (if qtype b = T_JUDGE \<and> options b = [] then default_options else options b))"
  by (simp add: finalize_def Let_def clean_opts_refines)

lemma kept_default: "kept_options L default_options = default_options"
  by (simp add: kept_options_def normalized_def default_options_def str_defs)

lemma finalize_default:
  "qtype b = T_JUDGE \<Longrightarrow> options b = [] \<Longrightarrow> finalize L b = b\<lparr>options := default_options\<rparr>"
  by (simp add: finalize_def Let_def clean_opts_refines kept_default) (simp add: default_options_def)

lemma flush_current_cases:
  "flush_current L ql buf = ql \<or>
   (\<exists>b. buf = Some b \<and> clean (question b) \<noteq> [] \<and> flush_current L ql buf = ql @ [finalize L b])"
  by (auto simp: flush_current_def finalize_fields split: option.splits)

lemma flush_current_nonempty:
  assumes "list_all (\<lambda>q. clean (question q) \<noteq> []) ql"
  shows "list_all (\<lambda>q. clean (question q) \<noteq> []) (flush_current L ql buf)"
  using assms flush_current_cases [of L ql buf] by (auto simp: finalize_fields)

text \<open>
  Claim C6. The options of a finalised record are those of the record in progress (or
  the default pair), each with its label in upper case and its text cleaned, without
  those whose label or text is empty, and with the first option only of every label, in
  the order of first appearance; the labels are distinct. Options declared B, B, A, the
  first and the last with a text that is not blank, finalise to the first B and the A.
\<close>

theorem finalize_options_dedup:
  "options (finalize L b) =
     first_by_label (kept_options L
       (if qtype b = T_JUDGE \<and> options b = [] then default_options else options b)) \<and>
   distinct (map opt_label (options (finalize L b))) \<and>
   (options b = [\<lparr>opt_label = [66], opt_text = t1\<rparr>, \<lparr>opt_label = [66], opt_text = t2\<rparr>,
                 \<lparr>opt_label = [65], opt_text = t3\<rparr>] \<and> clean t1 \<noteq> [] \<and> clean t3 \<noteq> [] \<longrightarrow>
      options (finalize L b) =
        [\<lparr>opt_label = [66], opt_text = clean t1\<rparr>, \<lparr>opt_label = [65], opt_text = clean t3\<rparr>])"
proof (intro conjI impI)
  show "options (finalize L b) =
     first_by_label (kept_options L
       (if qtype b = T_JUDGE \<and> options b = [] then default_options else options b))"
    by (rule finalize_options)
  show "distinct (map opt_label (options (finalize L b)))"
    by (simp only: finalize_options first_by_label_distinct)
next
  assume a: "options b = [\<lparr>opt_label = [66], opt_text = t1\<rparr>, \<lparr>opt_label = [66], opt_text = t2\<rparr>,
                 \<lparr>opt_label = [65], opt_text = t3\<rparr>] \<and> clean t1 \<noteq> [] \<and> clean t3 \<noteq> []"
  have u: "upper L [66] = [66]" "upper L [65] = [65]"
    by (simp_all add: upper_ascii_capital)
  from a show "options (finalize L b) =
        [\<lparr>opt_label = [66], opt_text = clean t1\<rparr>, \<lparr>opt_label = [65], opt_text = clean t3\<rparr>]"
    by (simp add: finalize_options kept_options_def normalized_def u)
qed

theorem finalize_options_dedup_witness:
  "options rec_bba = [\<lparr>opt_label = [66], opt_text = [102]\<rparr>, \<lparr>opt_label = [66], opt_text = [103]\<rparr>,
                      \<lparr>opt_label = [65], opt_text = [104]\<rparr>] \<and>
   clean [102] = [102] \<and> clean [104] = [104] \<and>
   options (finalize ascii_lib rec_bba) =
     [\<lparr>opt_label = [66], opt_text = [102]\<rparr>, \<lparr>opt_label = [65], opt_text = [104]\<rparr>] \<and>
   parse_docx ascii_lib doc_bba 1 False =
     Inr [rec_bba\<lparr>options := [\<lparr>opt_label = [66], opt_text = [102]\<rparr>,
                                \<lparr>opt_label = [65], opt_text = [104]\<rparr>]\<rparr>]"
  using finalize_options_dedup [where L = ascii_lib and b = rec_bba and ?t1.0 = "[102]"
      and ?t2.0 = "[103]" and ?t3.0 = "[104]"]
  by (simp add: str_defs re_defs parse_defs ex_defs Let_def)

text \<open>
  Claim C7. A record in progress of type true/false with no option is finalised with
  exactly the default options, A with U+6B63 U+786E and B with U+9519 U+8BEF in this
  order, everything else unchanged; it is emitted so when its question is not blank.
\<close>

theorem finalize_judge_default_options:
  assumes "qtype b = T_JUDGE" and "options b = []"
  shows "options (finalize L b) =
           [\<lparr>opt_label = [65], opt_text = [27491, 30830]\<rparr>,
            \<lparr>opt_label = [66], opt_text = [38169, 35823]\<rparr>] \<and>
         finalize L b =
           b\<lparr>options := [\<lparr>opt_label = [65], opt_text = [27491, 30830]\<rparr>,
                          \<lparr>opt_label = [66], opt_text = [38169, 35823]\<rparr>]\<rparr> \<and>
         (clean (question b) \<noteq> [] \<longrightarrow>
            flush_current L ql (Some b) =
              ql @ [b\<lparr>options := [\<lparr>opt_label = [65], opt_text = [27491, 30830]\<rparr>,
                                   \<lparr>opt_label = [66], opt_text = [38169, 35823]\<rparr>]\<rparr>])"
  using assms by (simp add: finalize_default flush_current_def) (simp add: default_options_def)

theorem finalize_judge_default_options_witness:
  "qtype rec_judge = T_JUDGE \<and> options rec_judge = [] \<and> clean (question rec_judge) = [115] \<and>
   options (finalize ascii_lib rec_judge) =
     [\<lparr>opt_label = [65], opt_text = [27491, 30830]\<rparr>,
      \<lparr>opt_label = [66], opt_text = [38169, 35823]\<rparr>] \<and>
   flush_current ascii_lib [] (Some rec_judge) =
     [\<lparr>number = 2, qtype = T_JUDGE, question = [115],
       options = [\<lparr>opt_label = [65], opt_text = [27491, 30830]\<rparr>,
                  \<lparr>opt_label = [66], opt_text = [38169, 35823]\<rparr>],
       answer = [[65]]\<rparr>] \<and>
   parse_docx ascii_lib doc_judge 1 True =
     Inr [\<lparr>number = 2, qtype = T_JUDGE, question = [115],
           options = [\<lparr>opt_label = [65], opt_text = [27491, 30830]\<rparr>,
                      \<lparr>opt_label = [66], opt_text = [38169, 35823]\<rparr>],
           answer = [[65]]\<rparr>]"
proof -
  have t: "qtype rec_judge = T_JUDGE" by (simp add: rec_judge_def)
  have o: "options rec_judge = []" by (simp add: rec_judge_def)
  show ?thesis
    using finalize_judge_default_options [OF t o, of ascii_lib "[]"] t o
    by (simp add: str_defs re_defs parse_defs ex_defs Let_def)
qed

section \<open>The parsing loop: properties\<close>

text \<open>An answer line is no option line: the two patterns start with different code points.\<close>

lemma RE_ANS_not_RE_OPT: "RE_ANS s = Some t \<Longrightarrow> RE_OPT s = None"
  by (auto simp: RE_ANS_def RE_OPT_def match_ans_label_def is_ascii_letter_def
      split: list.splits if_splits option.splits)

lemma step_qstart_questions:
  assumes "RE_Q_START L (strip raw) \<noteq> None" and "step L r st raw = Inr st'"
  shows "questions st' = flush_current L (questions st) (cur st)"
  using assms by (auto simp: step_def Let_def split: prod.splits sum.splits)

lemma step_qstart_number:
  assumes "RE_Q_START L (strip raw) \<noteq> None" and "step L False st raw = Inr st'"
  shows "\<exists>c. cur st' = Some c \<and> number c = auto_num st"
  using assms by (auto simp: step_def Let_def split: prod.splits sum.splits)

text \<open>A line that starts no question emits nothing and numbers nothing.\<close>

lemma step_other:
  assumes "RE_Q_START L (strip raw) = None" and "step L r st raw = Inr st'"
  shows "questions st' = questions st \<and> auto_num st' = auto_num st \<and>
         (case cur st of None \<Rightarrow> cur st' = None
          | Some c \<Rightarrow> \<exists>c'. cur st' = Some c' \<and> number c' = number c)"
  using assms
  by (auto simp: step_def Let_def split: option.splits prod.splits sum.splits if_splits)

lemma step_answer:
  assumes "RE_Q_START L (strip raw) = None" and "RE_ANS (strip raw) = Some t" and "cur st = Some c"
  shows "step L r st raw =
           (case normalize_answers L t (qtype c) of
              Inl e \<Rightarrow> Inl e
            | Inr a \<Rightarrow> Inr (st\<lparr>cur := Some (c\<lparr>answer := a\<rparr>)\<rparr>))"
  using assms RE_ANS_not_RE_OPT [OF assms(2)] by (simp add: step_def Let_def)

lemma step_keeps_answer:
  assumes "RE_Q_START L (strip raw) = None" and "RE_ANS (strip raw) = None"
    and "step L r st raw = Inr st'" and "cur st = Some c"
  shows "\<exists>c'. cur st' = Some c' \<and> answer c' = answer c"
  using assms
  by (auto simp: step_def Let_def split: option.splits prod.splits if_splits)

lemma run_append:
  "run L r st (xs @ ys) = (case run L r st xs of Inl e \<Rightarrow> Inl e | Inr st' \<Rightarrow> run L r st' ys)"
  by (induction xs arbitrary: st) (auto split: sum.splits)

lemma run_keeps_answer:
  assumes "\<forall>l \<in> set ls. RE_Q_START L (strip l) = None \<and> RE_ANS (strip l) = None"
    and "run L r st ls = Inr st'" and "cur st = Some c"
  shows "\<exists>c'. cur st' = Some c' \<and> answer c' = answer c"
  using assms
proof (induction ls arbitrary: st c)
  case Nil
  then show ?case by simp
next
  case (Cons l ls)
  from Cons.prems(2) obtain st1 where
    s1: "step L r st l = Inr st1" and r1: "run L r st1 ls = Inr st'"
    by (auto split: sum.splits)
  from Cons.prems(1) have l: "RE_Q_START L (strip l) = None" "RE_ANS (strip l) = None"
    and ls: "\<forall>l \<in> set ls. RE_Q_START L (strip l) = None \<and> RE_ANS (strip l) = None"
    by simp_all
  from step_keeps_answer [OF l s1 Cons.prems(3)] obtain c1 where
    c1: "cur st1 = Some c1" "answer c1 = answer c" by blast
  from Cons.IH [OF ls r1 c1(1)] c1(2) show ?case by simp
qed

lemma run_keeps_number:
  assumes "\<forall>l \<in> set ls. RE_Q_START L (strip l) = None"
    and "run L r st ls = Inr st'" and "cur st = Some c"
  shows "\<exists>c'. cur st' = Some c' \<and> number c' = number c"
  using assms
proof (induction ls arbitrary: st c)
  case Nil
  then show ?case by simp
next
  case (Cons l ls)
  from Cons.prems(2) obtain st1 where
    s1: "step L r st l = Inr st1" and r1: "run L r st1 ls = Inr st'"
    by (auto split: sum.splits)
  from Cons.prems(1) have l: "RE_Q_START L (strip l) = None"
    and ls: "\<forall>l \<in> set ls. RE_Q_START L (strip l) = None" by simp_all
  from step_other [OF l s1] Cons.prems(3) obtain c1 where
    c1: "cur st1 = Some c1" "number c1 = number c" by auto
  from Cons.IH [OF ls r1 c1(1)] c1(2) show ?case by simp
qed

text \<open>Without the numbers of the document, the counter goes up by one at every question start.\<close>

lemma run_auto_num:
  "run L False st ls = Inr st' \<Longrightarrow> auto_num st' = auto_num st + int (q_starts L ls)"
proof (induction ls arbitrary: st)
  case Nil
  then show ?case by (simp add: q_starts_def)
next
  case (Cons l ls)
  from Cons.prems obtain st1 where
    s1: "step L False st l = Inr st1" and r1: "run L False st1 ls = Inr st'"
    by (auto split: sum.splits)
  have "auto_num st1 = auto_num st + (if RE_Q_START L (strip l) \<noteq> None then 1 else 0)"
  proof (cases "RE_Q_START L (strip l)")
    case None
    with step_other [OF None s1] show ?thesis by simp
  next
    case (Some m)
    then show ?thesis using s1
      by (auto simp: step_def Let_def split: prod.splits sum.splits)
  qed
  with Cons.IH [OF r1] show ?case by (simp add: q_starts_def)
qed

lemma step_nonempty:
  assumes "step L r st raw = Inr st'"
    and "list_all (\<lambda>q. clean (question q) \<noteq> []) (questions st)"
  shows "list_all (\<lambda>q. clean (question q) \<noteq> []) (questions st')"
proof (cases "RE_Q_START L (strip raw)")
  case None
  with step_other [OF None assms(1)] assms(2) show ?thesis by simp
next
  case (Some m)
  then have "RE_Q_START L (strip raw) \<noteq> None" by simp
  from step_qstart_questions [OF this assms(1)] flush_current_nonempty [OF assms(2)]
  show ?thesis by simp
qed

lemma run_nonempty:
  assumes "run L r st ls = Inr st'"
    and "list_all (\<lambda>q. clean (question q) \<noteq> []) (questions st)"
  shows "list_all (\<lambda>q. clean (question q) \<noteq> []) (questions st')"
  using assms
proof (induction ls arbitrary: st)
  case Nil
  then show ?case by simp
next
  case (Cons l ls)
  from Cons.prems(1) obtain st1 where
    s1: "step L r st l = Inr st1" and r1: "run L r st1 ls = Inr st'"
    by (auto split: sum.splits)
  from Cons.IH [OF r1 step_nonempty [OF s1 Cons.prems(2)]] show ?case .
qed

text \<open>
  Claim C3. Every record that \<open>parse_docx\<close> returns has a question that is not empty,
  also after cleaning; and flushing a record whose cleaned question is empty leaves the
  list of questions as it was (\<open>flush_current\<close> has no exception to raise).
\<close>

theorem emitted_question_nonempty:
  "(parse_docx L paragraphs s r = Inr qs \<longrightarrow>
      (\<forall>q \<in> set qs. clean (question q) \<noteq> [] \<and> question q \<noteq> [])) \<and>
   (clean (question b) = [] \<longrightarrow> flush_current L ql (Some b) = ql)"
proof (intro conjI impI)
  assume p: "parse_docx L paragraphs s r = Inr qs"
  then obtain st where st: "run L r (init_state s) (read_lines paragraphs @ [[]]) = Inr st"
    and qs: "qs = flush_current L (questions st) (cur st)"
    by (auto simp: parse_docx_def split: sum.splits)
  have "list_all (\<lambda>q. clean (question q) \<noteq> []) (questions (init_state s))"
    by (simp add: init_state_def)
  from flush_current_nonempty [OF run_nonempty [OF st this], of L "cur st"] qs
  have "list_all (\<lambda>q. clean (question q) \<noteq> []) qs" by simp
  then show "\<forall>q \<in> set qs. clean (question q) \<noteq> [] \<and> question q \<noteq> []"
    using clean_Nil by (auto simp: list_all_iff)
next
  assume "clean (question b) = []"
  then show "flush_current L ql (Some b) = ql"
    by (simp add: flush_current_def finalize_fields)
qed

theorem emitted_question_nonempty_witness:
  "parse_docx ascii_lib doc_empty_question 1 False
     = Inr [\<lparr>number = 2, qtype = T_SINGLE, question = [98], options = [], answer = []\<rparr>] \<and>
   clean [98] = [98] \<and>
   clean (question rec_blank) = [] \<and> flush_current ascii_lib [rec_x] (Some rec_blank) = [rec_x]"
  using emitted_question_nonempty [where L = ascii_lib and paragraphs = doc_empty_question
      and s = 1 and r = False and b = rec_blank and ql = "[rec_x]"
      and qs = "[\<lparr>number = 2, qtype = T_SINGLE, question = [98], options = [], answer = []\<rparr>]"]
  by (simp add: str_defs re_defs parse_defs ex_defs Let_def)

text \<open>
  Claim C5. Without the numbers of the document and with the counter starting at \<open>s\<close>,
  a line that starts a question gets the number \<open>s\<close> plus the number of question starts
  before it (the k-th gets \<open>s + k - 1\<close>), and the record keeps this number through the
  lines up to the next question start and through finalisation. The witness runs three
  questions from 5 and finds 5, 6, 7.
\<close>

theorem auto_numbering:
  assumes "run L False (init_state s) (pre @ raw # mid) = Inr st"
    and "RE_Q_START L (strip raw) \<noteq> None"
    and "\<forall>l \<in> set mid. RE_Q_START L (strip l) = None"
  shows "\<exists>c. cur st = Some c \<and> number c = s + int (q_starts L pre) \<and>
             number (finalize L c) = s + int (q_starts L pre)"
proof -
  from assms(1) obtain st1 st2 where
    p: "run L False (init_state s) pre = Inr st1" and q: "step L False st1 raw = Inr st2"
    and m: "run L False st2 mid = Inr st"
    by (auto simp: run_append split: sum.splits)
  from run_auto_num [OF p] have "auto_num st1 = s + int (q_starts L pre)"
    by (simp add: init_state_def)
  with step_qstart_number [OF assms(2) q] obtain c2 where
    c2: "cur st2 = Some c2" "number c2 = s + int (q_starts L pre)" by auto
  from run_keeps_number [OF assms(3) m c2(1)] c2(2) show ?thesis
    by (auto simp: finalize_fields)
qed

theorem auto_numbering_witness:
  "run ascii_lib False (init_state 5) ([[49, 46, 32, 97], [50, 46, 32, 98]] @ [51, 46, 32, 99] # [[]])
     = Inr \<lparr>questions = [\<lparr>number = 5, qtype = T_SINGLE, question = [97], options = [], answer = []\<rparr>,
                          \<lparr>number = 6, qtype = T_SINGLE, question = [98], options = [], answer = []\<rparr>],
            cur = Some \<lparr>number = 7, qtype = T_SINGLE, question = [99], options = [], answer = []\<rparr>,
            auto_num = 8\<rparr> \<and>
   RE_Q_START ascii_lib (strip [51, 46, 32, 99]) = Some ([51], None, [99]) \<and>
   RE_Q_START ascii_lib (strip []) = None \<and>
   q_starts ascii_lib [[49, 46, 32, 97], [50, 46, 32, 98]] = 2 \<and>
   parse_docx ascii_lib doc_three 5 False =
     Inr [\<lparr>number = 5, qtype = T_SINGLE, question = [97], options = [], answer = []\<rparr>,
          \<lparr>number = 6, qtype = T_SINGLE, question = [98], options = [], answer = []\<rparr>,
          \<lparr>number = 7, qtype = T_SINGLE, question = [99], options = [], answer = []\<rparr>]"
proof -
  have r: "run ascii_lib False (init_state 5)
             ([[49, 46, 32, 97], [50, 46, 32, 98]] @ [51, 46, 32, 99] # [[]])
     = Inr \<lparr>questions = [\<lparr>number = 5, qtype = T_SINGLE, question = [97], options = [], answer = []\<rparr>,
                          \<lparr>number = 6, qtype = T_SINGLE, question = [98], options = [], answer = []\<rparr>],
            cur = Some \<lparr>number = 7, qtype = T_SINGLE, question = [99], options = [], answer = []\<rparr>,
            auto_num = 8\<rparr>"
    by (simp add: str_defs re_defs parse_defs Let_def)
  have q: "RE_Q_START ascii_lib (strip [51, 46, 32, 99]) \<noteq> None"
    by (simp add: str_defs re_defs parse_defs Let_def)
  have m: "\<forall>l \<in> set [[]]. RE_Q_START ascii_lib (strip l) = None"
    by (simp add: str_defs re_defs parse_defs Let_def)
  show ?thesis
    using auto_numbering [OF r q m] r
    by (simp add: str_defs re_defs parse_defs ex_defs q_starts_def Let_def)
qed

text \<open>
  Claim C8. With a record open, a line that the loop takes as an answer line sets the
  answer to the normalisation of its text against the type the record has at that line,
  whatever the answer was before; the lines after it that neither start a question nor
  are answer lines leave the answer alone, and so does finalisation. So of several
  answer lines before the next question the last one decides.
\<close>

theorem last_answer_wins:
  assumes "cur st = Some c"
    and "RE_Q_START L (strip raw) = None" and "RE_ANS (strip raw) = Some t"
    and "\<forall>l \<in> set rest. RE_Q_START L (strip l) = None \<and> RE_ANS (strip l) = None"
    and "run L r st (raw # rest) = Inr st'"
  shows "\<exists>c'. cur st' = Some c' \<and> normalize_answers L t (qtype c) = Inr (answer c') \<and>
              answer (finalize L c') = answer c'"
proof -
  from assms(5) obtain st1 where
    s1: "step L r st raw = Inr st1" and r1: "run L r st1 rest = Inr st'"
    by (auto split: sum.splits)
  from s1 step_answer [OF assms(2,3,1), of r] obtain a where
    a: "normalize_answers L t (qtype c) = Inr a" "st1 = st\<lparr>cur := Some (c\<lparr>answer := a\<rparr>)\<rparr>"
    by (auto split: sum.splits)
  then have "cur st1 = Some (c\<lparr>answer := a\<rparr>)" by simp
  from run_keeps_answer [OF assms(4) r1 this] a(1) show ?thesis
    by (auto simp: finalize_fields)
qed

theorem last_answer_wins_witness:
  "cur open_x = Some rec_x \<and>
   RE_Q_START ascii_lib (strip [31572, 26696, 65306, 66]) = None \<and>
   RE_ANS (strip [31572, 26696, 65306, 66]) = Some [66] \<and>
   RE_Q_START ascii_lib (strip []) = None \<and> RE_ANS (strip []) = None \<and>
   run ascii_lib False open_x [[31572, 26696, 65306, 66], []]
     = Inr (open_x\<lparr>cur := Some (rec_x\<lparr>answer := [[66]]\<rparr>)\<rparr>) \<and>
   normalize_answers ascii_lib [66] (qtype rec_x) = Inr [[66]] \<and>
   parse_docx ascii_lib doc_two_answers 1 False = Inr [rec_x\<lparr>answer := [[66]]\<rparr>]"
proof -
  have c: "cur open_x = Some rec_x" by (simp add: open_x_def)
  have q: "RE_Q_START ascii_lib (strip [31572, 26696, 65306, 66]) = None"
    by (simp add: str_defs re_defs parse_defs Let_def)
  have a: "RE_ANS (strip [31572, 26696, 65306, 66]) = Some [66]"
    by (simp add: str_defs re_defs)
  have m: "\<forall>l \<in> set [[]]. RE_Q_START ascii_lib (strip l) = None \<and> RE_ANS (strip l) = None"
    by (simp add: str_defs re_defs parse_defs Let_def)
  have r: "run ascii_lib False open_x [[31572, 26696, 65306, 66], []]
             = Inr (open_x\<lparr>cur := Some (rec_x\<lparr>answer := [[66]]\<rparr>)\<rparr>)"
    by (simp add: str_defs re_defs parse_defs ex_defs Let_def)
  show ?thesis
    using last_answer_wins [OF c q a m r] c q a r
    by (simp add: str_defs re_defs parse_defs ex_defs Let_def)
qed

text \<open>
  Claim C10, as it is stated, fails: the answer of a finalised single-choice record need
  not be the letter extraction of its last answer line. In \<open>doc_type_change\<close> the
  answer line is read while the record is of type true/false and gives A; the next line
  makes the record single-choice; the letter extraction of the answer text is empty.
\<close>

theorem answer_letter_extraction_counterexample:
  "parse_docx ascii_lib doc_type_change 1 False =
     Inr [\<lparr>number = 1, qtype = T_SINGLE, question = [120, 32, 121], options = [],
           answer = [[65]]\<rparr>] \<and>
   RE_ANS [31572, 26696, 65306, 23545] = Some [23545] \<and>
   rev (remdups (rev (leading_letters (split_parts [] (upper ascii_lib (strip [23545])))))) = []"
proof (intro conjI)
  show "parse_docx ascii_lib doc_type_change 1 False =
     Inr [\<lparr>number = 1, qtype = T_SINGLE, question = [120, 32, 121], options = [],
           answer = [[65]]\<rparr>]"
    by (simp add: str_defs re_defs parse_defs ex_defs Let_def)
  show "RE_ANS [31572, 26696, 65306, 23545] = Some [23545]"
    by (simp add: re_defs str_defs)
  show "rev (remdups (rev (leading_letters (split_parts [] (upper ascii_lib (strip [23545])))))) = []"
    by (simp add: leading_letters_def str_defs parse_defs)
qed

text \<open>
  Claim C10, amended. Nothing compares the answer with the options. Finalisation leaves
  the answer as it is. When the record is of a type other than true/false at the line
  that the loop takes as its last answer line, the finalised answer is the letter
  extraction of that line: the upper-case letters that start the parts of the answer
  text, first occurrences in their order. And the document \<open>doc_answer_z\<close> gives one
  record with the options A and B and the answer Z.
\<close>

theorem answer_not_cross_validated:
  "answer (finalize L b) = answer b \<and>
   (cur st = Some c \<and> qtype c \<noteq> T_JUDGE \<and>
    RE_Q_START L (strip raw) = None \<and> RE_ANS (strip raw) = Some t \<and>
    (\<forall>l \<in> set rest. RE_Q_START L (strip l) = None \<and> RE_ANS (strip l) = None) \<and>
    run L r st (raw # rest) = Inr st' \<longrightarrow>
      (\<exists>c'. cur st' = Some c' \<and>
         answer (finalize L c') =
           rev (remdups (rev (leading_letters (split_parts [] (upper L (strip t)))))))) \<and>
   (\<exists>q. parse_docx ascii_lib doc_answer_z 1 False = Inr [q] \<and> qtype q = T_SINGLE \<and>
        map opt_label (options q) = [[65], [66]] \<and> answer q = [[90]])"
proof (intro conjI impI)
  show "answer (finalize L b) = answer b" by (rule finalize_fields)
next
  assume h: "cur st = Some c \<and> qtype c \<noteq> T_JUDGE \<and>
    RE_Q_START L (strip raw) = None \<and> RE_ANS (strip raw) = Some t \<and>
    (\<forall>l \<in> set rest. RE_Q_START L (strip l) = None \<and> RE_ANS (strip l) = None) \<and>
    run L r st (raw # rest) = Inr st'"
  then have c: "cur st = Some c" and ty: "qtype c \<noteq> T_JUDGE"
    and q: "RE_Q_START L (strip raw) = None" and a: "RE_ANS (strip raw) = Some t"
    and m: "\<forall>l \<in> set rest. RE_Q_START L (strip l) = None \<and> RE_ANS (strip l) = None"
    and rn: "run L r st (raw # rest) = Inr st'"
    by simp_all
  from rn obtain st1 where
    s1: "step L r st raw = Inr st1" and r1: "run L r st1 rest = Inr st'"
    by (auto split: sum.splits)
  have n: "normalize_answers L t (qtype c) =
      Inr (rev (remdups (rev (leading_letters (split_parts [] (upper L (strip t)))))))"
    using normalize_answers_choice [OF ty] by (simp add: letters_leading)
  from s1 step_answer [OF q a c, of r] n
  have "cur st1 = Some (c\<lparr>answer :=
      rev (remdups (rev (leading_letters (split_parts [] (upper L (strip t))))))\<rparr>)"
    by auto
  from run_keeps_answer [OF m r1 this]
  show "\<exists>c'. cur st' = Some c' \<and>
         answer (finalize L c') =
           rev (remdups (rev (leading_letters (split_parts [] (upper L (strip t))))))"
    by (auto simp: finalize_fields)
next
  have "parse_docx ascii_lib doc_answer_z 1 False =
      Inr [\<lparr>number = 1, qtype = T_SINGLE, question = [120],
            options = [\<lparr>opt_label = [65], opt_text = [102]\<rparr>, \<lparr>opt_label = [66], opt_text = [103]\<rparr>],
            answer = [[90]]\<rparr>]"
    by (simp add: str_defs re_defs parse_defs ex_defs Let_def)
  then show "\<exists>q. parse_docx ascii_lib doc_answer_z 1 False = Inr [q] \<and> qtype q = T_SINGLE \<and>
        map opt_label (options q) = [[65], [66]] \<and> answer q = [[90]]"
    by simp
qed

theorem answer_not_cross_validated_witness:
  "cur open_x = Some rec_x \<and> qtype rec_x \<noteq> T_JUDGE \<and>
   RE_Q_START ascii_lib (strip line_mixed) = None \<and> RE_ANS (strip line_mixed) = Some ans_mixed \<and>
   RE_Q_START ascii_lib (strip []) = None \<and> RE_ANS (strip []) = None \<and>
   run ascii_lib False open_x [line_mixed, []]
     = Inr (open_x\<lparr>cur := Some (rec_x\<lparr>answer := [[65], [67]]\<rparr>)\<rparr>) \<and>
   split_parts [] (upper ascii_lib (strip ans_mixed)) = [[65, 67], [49, 66], [67, 68], [65]] \<and>
   leading_letters [[65, 67], [49, 66], [67, 68], [65]] = [[65], [67], [65]] \<and>
   answer (finalize ascii_lib (rec_x\<lparr>answer := [[65], [67]]\<rparr>)) = [[65], [67]]"
proof -
  have h: "cur open_x = Some rec_x \<and> qtype rec_x \<noteq> T_JUDGE \<and>
    RE_Q_START ascii_lib (strip line_mixed) = None \<and> RE_ANS (strip line_mixed) = Some ans_mixed \<and>
    (\<forall>l \<in> set [[]]. RE_Q_START ascii_lib (strip l) = None \<and> RE_ANS (strip l) = None) \<and>
    run ascii_lib False open_x [line_mixed, []]
      = Inr (open_x\<lparr>cur := Some (rec_x\<lparr>answer := [[65], [67]]\<rparr>)\<rparr>)"
    by (simp add: str_defs re_defs parse_defs ex_defs Let_def)
  show ?thesis
    using answer_not_cross_validated [where L = ascii_lib and st = open_x and c = rec_x
        and raw = line_mixed and t = ans_mixed and rest = "[[]]" and r = False
        and st' = "open_x\<lparr>cur := Some (rec_x\<lparr>answer := [[65], [67]]\<rparr>)\<rparr>"
        and b = "rec_x\<lparr>answer := [[65], [67]]\<rparr>"] h
    by (simp add: str_defs re_defs parse_defs ex_defs leading_letters_def Let_def)
qed

end
